theory Spec2Isabelle
  imports Complex_Main "HOL-Library.Log_Nat" "HOL-Library.AList"
begin

section \<open>Python floats\<close>

text \<open>
  A Python \<^verbatim>\<open>float\<close> is an IEEE 754 binary64 number.  A finite one is represented by
  the rational number it denotes; the two infinities and NaN are values of their own.
  The sign of zero is not represented (no operation of the program observes it).
\<close>

datatype pyfloat = Finite rat | PInf | NInf | NaN

datatype py_error = ZeroDivisionError | OverflowError | ValueError

text \<open>Rounding a rational to the nearest integer, ties to the even one.\<close>

definition round_half_even :: "rat \<Rightarrow> int" where
  "round_half_even x =
     (let f = \<lfloor>x\<rfloor>; d = x - of_int f
      in if d < 1 / 2 then f
         else if 1 / 2 < d then f + 1
         else if even f then f else f + 1)"

text \<open>The binary exponent of a non-zero rational: the \<open>k\<close> with \<open>2^k \<le> |q| < 2^(k+1)\<close>.\<close>

definition binade :: "rat \<Rightarrow> int" where
  "binade q =
     (if 1 \<le> \<bar>q\<bar> then bitlen \<lfloor>\<bar>q\<bar>\<rfloor> - 1
      else - bitlen (\<lceil>1 / \<bar>q\<bar>\<rceil> - 1))"

text \<open>
  Rounding an exact result to binary64 (round to nearest, ties to even): 53 significant
  bits, the least exponent of the last bit is \<open>-1074\<close> (subnormal numbers), and a result
  that rounds to \<open>2^1024\<close> or beyond (binary exponent 1024 or more) overflows to an
  infinity.
\<close>

definition fl :: "rat \<Rightarrow> pyfloat" where
  "fl q =
     (if q = 0 then Finite 0
      else let e = max (binade q - 52) (- 1074);
               r = of_int (round_half_even (q / 2 powi e)) * 2 powi e
           in if 1024 \<le> binade r then (if 0 < q then PInf else NInf)
              else Finite r)"

text \<open>\<^verbatim>\<open>a * b\<close> on floats.\<close>

fun float_mul :: "pyfloat \<Rightarrow> pyfloat \<Rightarrow> pyfloat" where
  "float_mul (Finite a) (Finite b) = fl (a * b)"
| "float_mul NaN _ = NaN"
| "float_mul _ NaN = NaN"
| "float_mul (Finite a) PInf = (if a = 0 then NaN else if 0 < a then PInf else NInf)"
| "float_mul (Finite a) NInf = (if a = 0 then NaN else if 0 < a then NInf else PInf)"
| "float_mul PInf (Finite b) = (if b = 0 then NaN else if 0 < b then PInf else NInf)"
| "float_mul NInf (Finite b) = (if b = 0 then NaN else if 0 < b then NInf else PInf)"
| "float_mul PInf PInf = PInf"
| "float_mul PInf NInf = NInf"
| "float_mul NInf PInf = NInf"
| "float_mul NInf NInf = PInf"

text \<open>\<^verbatim>\<open>a / b\<close> on floats; Python raises \<^verbatim>\<open>ZeroDivisionError\<close> on a zero divisor.\<close>

fun float_truediv :: "pyfloat \<Rightarrow> pyfloat \<Rightarrow> py_error + pyfloat" where
  "float_truediv (Finite a) (Finite b) =
     (if b = 0 then Inl ZeroDivisionError else Inr (fl (a / b)))"
| "float_truediv PInf (Finite b) =
     (if b = 0 then Inl ZeroDivisionError else if 0 < b then Inr PInf else Inr NInf)"
| "float_truediv NInf (Finite b) =
     (if b = 0 then Inl ZeroDivisionError else if 0 < b then Inr NInf else Inr PInf)"
| "float_truediv NaN (Finite b) =
     (if b = 0 then Inl ZeroDivisionError else Inr NaN)"
| "float_truediv _ NaN = Inr NaN"
| "float_truediv (Finite a) _ = Inr (Finite 0)"
| "float_truediv _ _ = Inr NaN"

text \<open>
  \<^verbatim>\<open>round(x, ndigits)\<close> on a float, \<open>ndigits \<ge> 0\<close>: the exact value of \<open>x\<close> is
  rounded to \<open>ndigits\<close> decimal places, ties to even, and the decimal result is converted
  back to the nearest float.  A non-finite \<open>x\<close> is returned as it is; a result too large
  for a float raises \<^verbatim>\<open>OverflowError\<close>.
\<close>

fun float_round :: "pyfloat \<Rightarrow> nat \<Rightarrow> py_error + pyfloat" where
  "float_round (Finite q) ndigits =
     (case fl (of_int (round_half_even (q * 10 ^ ndigits)) / 10 ^ ndigits) of
        Finite r \<Rightarrow> Inr (Finite r)
      | _ \<Rightarrow> Inl OverflowError)"
| "float_round x ndigits = Inr x"

text \<open>Comparisons; every comparison with NaN is false.\<close>

fun float_le :: "pyfloat \<Rightarrow> pyfloat \<Rightarrow> bool" where
  "float_le NaN _ = False"
| "float_le _ NaN = False"
| "float_le (Finite a) (Finite b) = (a \<le> b)"
| "float_le NInf _ = True"
| "float_le _ PInf = True"
| "float_le _ _ = False"

fun float_lt :: "pyfloat \<Rightarrow> pyfloat \<Rightarrow> bool" where
  "float_lt NaN _ = False"
| "float_lt _ NaN = False"
| "float_lt (Finite a) (Finite b) = (a < b)"
| "float_lt NInf NInf = False"
| "float_lt NInf _ = True"
| "float_lt PInf _ = False"
| "float_lt _ PInf = True"
| "float_lt _ _ = False"

definition float_gt :: "pyfloat \<Rightarrow> pyfloat \<Rightarrow> bool" where
  "float_gt x y = float_lt y x"

definition float_ge :: "pyfloat \<Rightarrow> pyfloat \<Rightarrow> bool" where
  "float_ge x y = float_le y x"

section \<open>JSON values and dictionaries\<close>

text \<open>
  Request bodies, stored documents and query filters are Python dictionaries of JSON-like
  values.  A dictionary is an association list in insertion order; \<open>map_of\<close> reads a
  key and \<open>AList.update\<close> is the assignment \<^verbatim>\<open>d[k] = v\<close>.  A number is held as the
  float it denotes.
\<close>

datatype json =
    JNull
  | JBool bool
  | JNum pyfloat
  | JStr string
  | JArr "json list"
  | JObj "(string \<times> json) list"

type_synonym dict = "(string \<times> json) list"

section \<open>schemas.py\<close>

definition BULGARIAN_REGIONS :: "string list" where
  "BULGARIAN_REGIONS =
     [''Blagoevgrad'', ''Burgas'', ''Dobrich'', ''Gabrovo'', ''Haskovo'', ''Kardzhali'',
      ''Kyustendil'', ''Lovech'', ''Montana'', ''Pazardzhik'', ''Pernik'', ''Pleven'',
      ''Plovdiv'', ''Razgrad'', ''Ruse'', ''Shumen'', ''Silistra'', ''Sliven'', ''Smolyan'',
      ''Sofia City'', ''Sofia Province'', ''Stara Zagora'', ''Targovishte'', ''Varna'',
      ''Veliko Tarnovo'', ''Vidin'', ''Vratsa'', ''Yambol'']"

text \<open>A validated \<^verbatim>\<open>Property\<close> model instance.\<close>

record Property =
  title :: string
  region :: string
  address :: "string option"
  description :: "string option"
  size_sqm :: pyfloat
  currency :: string
  price_value :: pyfloat
  images :: "string list option"

subsection \<open>Field validation\<close>

text \<open>
  The kinds of error a field validator reports.  An error carries the place it was found
  at, relative to the field (\<open>None\<close> for the field itself, \<open>Some i\<close> for item \<open>i\<close> of a
  list), its kind, and the input that was refused (the \<^verbatim>\<open>input\<close> entry of a pydantic
  error).
\<close>

datatype error_type =
    Missing
  | StringType
  | FloatType
  | FloatParsing
  | ListType
  | LiteralError
  | GreaterThan
  | GreaterThanEqual
  | LessThanEqual

type_synonym error_details = "nat option \<times> error_type \<times> json"

type_synonym 'a validated = "error_details list + 'a"

text \<open>
  The validators of the field types the schema uses.  Validation is pydantic's default
  (lax) mode: a \<^verbatim>\<open>str\<close> field takes a string only; a \<^verbatim>\<open>float\<close> field takes a number,
  a boolean (\<^verbatim>\<open>true\<close> is 1.0 and \<^verbatim>\<open>false\<close> is 0.0), and a string that the library
  reads as a number.  The reading of a string is library behaviour and is the parameter
  \<open>parse\<close> of the model: \<open>parse s = Some x\<close> when \<open>s\<close> is read as the float \<open>x\<close>.
\<close>

fun validate_str :: "json \<Rightarrow> string validated" where
  "validate_str (JStr s) = Inr s"
| "validate_str v = Inl [(None, StringType, v)]"

fun validate_float :: "(string \<Rightarrow> pyfloat option) \<Rightarrow> json \<Rightarrow> pyfloat validated" where
  "validate_float parse (JNum x) = Inr x"
| "validate_float parse (JBool b) = Inr (Finite (if b then 1 else 0))"
| "validate_float parse (JStr s) =
     (case parse s of Some x \<Rightarrow> Inr x | None \<Rightarrow> Inl [(None, FloatParsing, JStr s)])"
| "validate_float parse v = Inl [(None, FloatType, v)]"

text \<open>\<^verbatim>\<open>Literal[...]\<close>: the value is one of the listed strings.\<close>

fun validate_literal :: "string list \<Rightarrow> json \<Rightarrow> string validated" where
  "validate_literal lits (JStr s) =
     (if s \<in> set lits then Inr s else Inl [(None, LiteralError, JStr s)])"
| "validate_literal lits v = Inl [(None, LiteralError, v)]"

text \<open>\<^verbatim>\<open>Optional[T]\<close>: \<^verbatim>\<open>None\<close>, or a value of \<open>T\<close>.\<close>

fun validate_optional :: "(json \<Rightarrow> 'a validated) \<Rightarrow> json \<Rightarrow> 'a option validated" where
  "validate_optional f JNull = Inr None"
| "validate_optional f v = (case f v of Inl es \<Rightarrow> Inl es | Inr x \<Rightarrow> Inr (Some x))"

text \<open>
  \<^verbatim>\<open>List[str]\<close>: a list whose items are all strings.  Every item that is not a string
  gives an error of its own, at the index of the item.
\<close>

definition errors_of :: "'a validated \<Rightarrow> error_details list" where
  "errors_of r = (case r of Inl es \<Rightarrow> es | Inr _ \<Rightarrow> [])"

fun validate_str_items :: "nat \<Rightarrow> json list \<Rightarrow> string list validated" where
  "validate_str_items i [] = Inr []"
| "validate_str_items i (v # vs) =
     (case (validate_str v, validate_str_items (Suc i) vs) of
        (Inr s, Inr ss) \<Rightarrow> Inr (s # ss)
      | (r, rs) \<Rightarrow> Inl (map (\<lambda>(ix, e, inp). (Some i, e, inp)) (errors_of r) @ errors_of rs))"

fun validate_list_str :: "json \<Rightarrow> string list validated" where
  "validate_list_str (JArr vs) = validate_str_items 0 vs"
| "validate_list_str v = Inl [(None, ListType, v)]"

text \<open>
  The numeric constraints \<^verbatim>\<open>gt\<close>, \<^verbatim>\<open>ge\<close> on a float field: the value is validated as
  a float first, and the error of the constraint reports the input as it was received.
\<close>

definition constrain_gt :: "pyfloat \<Rightarrow> (json \<Rightarrow> pyfloat validated) \<Rightarrow> json \<Rightarrow> pyfloat validated" where
  "constrain_gt bound f v =
     (case f v of
        Inl es \<Rightarrow> Inl es
      | Inr x \<Rightarrow> if float_gt x bound then Inr x else Inl [(None, GreaterThan, v)])"

definition constrain_ge :: "pyfloat \<Rightarrow> (json \<Rightarrow> pyfloat validated) \<Rightarrow> json \<Rightarrow> pyfloat validated" where
  "constrain_ge bound f v =
     (case f v of
        Inl es \<Rightarrow> Inl es
      | Inr x \<Rightarrow> if float_ge x bound then Inr x else Inl [(None, GreaterThanEqual, v)])"

text \<open>
  A required field (\<^verbatim>\<open>Field(...)\<close>) must be present, and the error of a missing field
  reports the whole payload as its input; a field with a default takes the default when
  the key is absent.
\<close>

definition required :: "(json \<Rightarrow> 'a validated) \<Rightarrow> dict \<Rightarrow> string \<Rightarrow> 'a validated" where
  "required f payload name =
     (case map_of payload name of
        None \<Rightarrow> Inl [(None, Missing, JObj payload)]
      | Some v \<Rightarrow> f v)"

definition with_default :: "'a \<Rightarrow> (json \<Rightarrow> 'a validated) \<Rightarrow> dict \<Rightarrow> string \<Rightarrow> 'a validated" where
  "with_default d f payload name =
     (case map_of payload name of None \<Rightarrow> Inr d | Some v \<Rightarrow> f v)"

text \<open>The errors a field contributes to the validation error, tagged with its name.\<close>

definition field_errors :: "string \<Rightarrow> 'a validated \<Rightarrow> (string \<times> error_details) list" where
  "field_errors name r = map (Pair name) (errors_of r)"

subsection \<open>The Property model\<close>

text \<open>
  Validation of a request payload (a JSON object) against \<^verbatim>\<open>Property\<close>: every field is
  validated, the errors of all fields are collected, and the model instance exists only
  when there is none.  Keys of the payload that the model does not declare are ignored.
\<close>

definition validate_Property ::
  "(string \<Rightarrow> pyfloat option) \<Rightarrow> dict \<Rightarrow> (string \<times> error_details) list + Property" where
  "validate_Property parse payload =
     (let v_title = required validate_str payload ''title'';
          v_region = required (validate_literal BULGARIAN_REGIONS) payload ''region'';
          v_address = with_default None (validate_optional validate_str) payload ''address'';
          v_description =
            with_default None (validate_optional validate_str) payload ''description'';
          v_size_sqm =
            required (constrain_gt (Finite 0) (validate_float parse)) payload ''size_sqm'';
          v_currency =
            with_default ''EUR'' (validate_literal [''EUR'', ''BGN'']) payload ''currency'';
          v_price_value =
            required (constrain_gt (Finite 0) (validate_float parse)) payload ''price_value'';
          v_images =
            with_default None (validate_optional validate_list_str) payload ''images''
      in case (v_title, v_region, v_address, v_description, v_size_sqm, v_currency,
               v_price_value, v_images) of
           (Inr t, Inr r, Inr a, Inr d, Inr s, Inr c, Inr p, Inr i) \<Rightarrow>
             Inr \<lparr>title = t, region = r, address = a, description = d, size_sqm = s,
                  currency = c, price_value = p, images = i\<rparr>
         | _ \<Rightarrow>
             Inl (field_errors ''title'' v_title @ field_errors ''region'' v_region @
                  field_errors ''address'' v_address @
                  field_errors ''description'' v_description @
                  field_errors ''size_sqm'' v_size_sqm @
                  field_errors ''currency'' v_currency @
                  field_errors ''price_value'' v_price_value @
                  field_errors ''images'' v_images))"

definition json_of_optional_str :: "string option \<Rightarrow> json" where
  "json_of_optional_str x = (case x of None \<Rightarrow> JNull | Some s \<Rightarrow> JStr s)"

text \<open>\<^verbatim>\<open>payload.model_dump()\<close>: the fields of the instance, in declaration order.\<close>

definition model_dump :: "Property \<Rightarrow> dict" where
  "model_dump p =
     [(''title'', JStr (title p)),
      (''region'', JStr (region p)),
      (''address'', json_of_optional_str (address p)),
      (''description'', json_of_optional_str (description p)),
      (''size_sqm'', JNum (size_sqm p)),
      (''currency'', JStr (currency p)),
      (''price_value'', JNum (price_value p)),
      (''images'', (case images p of None \<Rightarrow> JNull | Some us \<Rightarrow> JArr (map JStr us)))]"

section \<open>main.py\<close>

text \<open>\<^verbatim>\<open>EUR_TO_BGN = 1.95583\<close>: the float nearest to the decimal literal.\<close>

definition EUR_TO_BGN :: pyfloat where
  "EUR_TO_BGN = fl (195583 / 100000)"

datatype error =
    RequestValidationError "(string \<times> error_type) list"
  | InternalServerError py_error

subsection \<open>create_property\<close>

text \<open>
  Lines 69 to 76 of \<^verbatim>\<open>create_property\<close>: the pair \<open>(price_eur, price_bgn)\<close> before
  rounding.  \<^verbatim>\<open>data.get("currency", "EUR")\<close> and \<^verbatim>\<open>data["price_value"]\<close> read the
  dumped fields of the validated instance.
\<close>

definition convert_prices :: "string \<Rightarrow> pyfloat \<Rightarrow> py_error + pyfloat \<times> pyfloat" where
  "convert_prices cur pv =
     (if cur = ''EUR'' then Inr (pv, float_mul pv EUR_TO_BGN)
      else (case float_truediv pv EUR_TO_BGN of
              Inl e \<Rightarrow> Inl e
            | Inr price_eur \<Rightarrow> Inr (price_eur, pv)))"

text \<open>
  Lines 67 to 78: the dictionary handed to the store, \<^verbatim>\<open>data\<close> with the two rounded
  prices assigned.
\<close>

definition normalized_data :: "Property \<Rightarrow> py_error + dict" where
  "normalized_data p =
     (let data = model_dump p in
      case convert_prices (currency p) (price_value p) of
        Inl e \<Rightarrow> Inl e
      | Inr (price_eur, price_bgn) \<Rightarrow>
          (case float_round price_eur 2 of
             Inl e \<Rightarrow> Inl e
           | Inr r_eur \<Rightarrow>
               (case float_round price_bgn 2 of
                  Inl e \<Rightarrow> Inl e
                | Inr r_bgn \<Rightarrow>
                    Inr (AList.update ''price_bgn'' (JNum r_bgn)
                          (AList.update ''price_eur'' (JNum r_eur) data)))))"

text \<open>
  The handler.  The framework validates the body before the handler runs and answers a
  validation error itself (status 422): the response lists the errors with their inputs
  and is encoded as strict JSON, which has no notation for NaN and the infinities.  When
  an input to be reported holds such a number the encoding raises \<^verbatim>\<open>ValueError\<close> and
  the answer is an internal server error (status 500) that names no field.
\<close>

fun json_compliant :: "json \<Rightarrow> bool" where
  "json_compliant (JNum x) = (case x of Finite q \<Rightarrow> True | _ \<Rightarrow> False)"
| "json_compliant (JArr vs) = list_all json_compliant vs"
| "json_compliant (JObj kvs) = list_all (\<lambda>kv. json_compliant (snd kv)) kvs"
| "json_compliant v = True"

definition validation_error_response :: "(string \<times> error_details) list \<Rightarrow> error" where
  "validation_error_response errs =
     (if list_all (\<lambda>(name, ix, e, inp). json_compliant inp) errs
      then RequestValidationError (map (\<lambda>(name, ix, e, inp). (name, e)) errs)
      else InternalServerError ValueError)"

text \<open>
  \<open>create_document\<close> is the store's insert, which returns the identity it assigned and
  the store after the insert.
\<close>

definition create_property ::
  "(string \<Rightarrow> pyfloat option) \<Rightarrow> (string \<Rightarrow> dict \<Rightarrow> 'db \<Rightarrow> string \<times> 'db) \<Rightarrow>
   dict \<Rightarrow> 'db \<Rightarrow> (error + dict) \<times> 'db" where
  "create_property parse create_document payload db =
     (case validate_Property parse payload of
        Inl errs \<Rightarrow> (Inl (validation_error_response errs), db)
      | Inr p \<Rightarrow>
          (case normalized_data p of
             Inl e \<Rightarrow> (Inl (InternalServerError e), db)
           | Inr data \<Rightarrow>
               (let (inserted_id, db') = create_document ''property'' data db
                in (Inr [(''id'', JStr inserted_id)], db'))))"

subsection \<open>search_properties\<close>

text \<open>
  The query parameters are modelled after parsing: \<open>None\<close> is a parameter the request
  does not supply.  The constraints of the signature (\<^verbatim>\<open>Literal\<close>, \<^verbatim>\<open>ge\<close>, \<^verbatim>\<open>le\<close>)
  are checked by the framework before the handler runs; the errors of all parameters are
  collected.  The parameter \<^verbatim>\<open>region\<close> is written \<open>rgn\<close>.
\<close>

definition check_ge0 :: "string \<Rightarrow> pyfloat option \<Rightarrow> (string \<times> error_type) list" where
  "check_ge0 name x =
     (case x of
        None \<Rightarrow> []
      | Some v \<Rightarrow> if float_ge v (Finite 0) then [] else [(name, GreaterThanEqual)])"

definition check_literal ::
  "string \<Rightarrow> string list \<Rightarrow> string option \<Rightarrow> (string \<times> error_type) list" where
  "check_literal name lits x =
     (case x of
        None \<Rightarrow> []
      | Some v \<Rightarrow> if v \<in> set lits then [] else [(name, LiteralError)])"

definition check_limit :: "int option \<Rightarrow> (string \<times> error_type) list" where
  "check_limit limit =
     (case limit of
        None \<Rightarrow> []
      | Some n \<Rightarrow>
          if n < 1 then [(''limit'', GreaterThanEqual)]
          else if 200 < n then [(''limit'', LessThanEqual)]
          else [])"

definition validate_query ::
  "string option \<Rightarrow> pyfloat option \<Rightarrow> pyfloat option \<Rightarrow> string option \<Rightarrow>
   pyfloat option \<Rightarrow> pyfloat option \<Rightarrow> int option \<Rightarrow> (string \<times> error_type) list" where
  "validate_query rgn min_price max_price price_currency min_sqm max_sqm limit =
     check_literal ''region'' BULGARIAN_REGIONS rgn @
     check_ge0 ''min_price'' min_price @
     check_ge0 ''max_price'' max_price @
     check_literal ''price_currency'' [''EUR'', ''BGN''] price_currency @
     check_ge0 ''min_sqm'' min_sqm @
     check_ge0 ''max_sqm'' max_sqm @
     check_limit limit"

definition regex_clause :: "string \<Rightarrow> string \<Rightarrow> json" where
  "regex_clause field pat =
     JObj [(field, JObj [(''$regex'', JStr pat), (''$options'', JStr ''i'')])]"

text \<open>Lines 110 to 114 (and 119 to 123): the range dictionary of two optional bounds.\<close>

definition range_dict :: "pyfloat option \<Rightarrow> pyfloat option \<Rightarrow> dict" where
  "range_dict lo hi =
     (let r0 = [];
          r1 = (case lo of None \<Rightarrow> r0 | Some x \<Rightarrow> AList.update ''$gte'' (JNum x) r0);
          r2 = (case hi of None \<Rightarrow> r1 | Some x \<Rightarrow> AList.update ''$lte'' (JNum x) r1)
      in r2)"

text \<open>
  Lines 95 to 125: the filter, for the parameters as the handler receives them.  The
  conditions \<^verbatim>\<open>if q:\<close> and \<^verbatim>\<open>if region:\<close> hold for a string that is present and
  not empty.
\<close>

definition build_filter ::
  "string option \<Rightarrow> string option \<Rightarrow> pyfloat option \<Rightarrow> pyfloat option \<Rightarrow> string \<Rightarrow>
   pyfloat option \<Rightarrow> pyfloat option \<Rightarrow> dict" where
  "build_filter q rgn min_price max_price price_currency min_sqm max_sqm =
     (let f0 = [];
          f1 = (case q of
                  None \<Rightarrow> f0
                | Some pat \<Rightarrow>
                    if pat = [] then f0
                    else AList.update ''$or''
                           (JArr [regex_clause ''title'' pat,
                                  regex_clause ''description'' pat,
                                  regex_clause ''address'' pat]) f0);
          f2 = (case rgn of
                  None \<Rightarrow> f1
                | Some r \<Rightarrow> if r = [] then f1 else AList.update ''region'' (JStr r) f1);
          price_field = (if price_currency = ''EUR'' then ''price_eur'' else ''price_bgn'');
          price_range = range_dict min_price max_price;
          f3 = (if price_range \<noteq> [] then AList.update price_field (JObj price_range) f2
                else f2);
          size_range = range_dict min_sqm max_sqm;
          f4 = (if size_range \<noteq> [] then AList.update ''size_sqm'' (JObj size_range) f3
                else f3)
      in f4)"

text \<open>\<^verbatim>\<open>shape\<close>: the document without its \<^verbatim>\<open>_id\<close>.\<close>

definition shape :: "dict \<Rightarrow> dict" where
  "shape doc = filter (\<lambda>(k, v). k \<noteq> ''_id'') doc"

record SearchResponse =
  results :: "dict list"
  total :: nat

text \<open>
  The handler with the parsing of its parameters: \<^verbatim>\<open>price_currency\<close> defaults to
  \<^verbatim>\<open>"EUR"\<close> and \<^verbatim>\<open>limit\<close> to 50.  \<open>get_documents\<close> is the store's query.
\<close>

definition search_properties ::
  "(string \<Rightarrow> dict \<Rightarrow> int \<Rightarrow> 'db \<Rightarrow> dict list) \<Rightarrow>
   string option \<Rightarrow> string option \<Rightarrow> pyfloat option \<Rightarrow> pyfloat option \<Rightarrow> string option \<Rightarrow>
   pyfloat option \<Rightarrow> pyfloat option \<Rightarrow> int option \<Rightarrow> 'db \<Rightarrow> error + SearchResponse" where
  "search_properties get_documents q rgn min_price max_price price_currency min_sqm max_sqm
     limit db =
     (case validate_query rgn min_price max_price price_currency min_sqm max_sqm limit of
        e # es \<Rightarrow> Inl (RequestValidationError (e # es))
      | [] \<Rightarrow>
          (let pc = (case price_currency of None \<Rightarrow> ''EUR'' | Some c \<Rightarrow> c);
               lim = (case limit of None \<Rightarrow> 50 | Some n \<Rightarrow> n);
               mongo_filter = build_filter q rgn min_price max_price pc min_sqm max_sqm;
               docs = get_documents ''property'' mongo_filter lim db;
               results = map shape docs
           in Inr \<lparr>results = results, total = length results\<rparr>))"

section \<open>The document store\<close>

text \<open>
  Modelled from the spec: \<^verbatim>\<open>database.py\<close> (\<^verbatim>\<open>create_document\<close>, \<^verbatim>\<open>get_documents\<close>) is
  not among the sources.  The spec asks of the store an insert-one that returns a
  generated identity, and a find-many with a conjunctive filter (equality, inclusive
  numeric ranges, text match) and a cap on the number of results.  The operators are the
  ones the filter of \<^verbatim>\<open>search_properties\<close> names.  The regular-expression engine behind
  \<^verbatim>\<open>$regex\<close> is the parameter \<open>rx\<close>: \<open>rx pat opts s\<close> says whether the pattern, under
  the options, matches somewhere in \<open>s\<close>.  A failure of the store is not modelled.
\<close>

type_synonym database = "(string \<times> dict list) list"

definition collection :: "database \<Rightarrow> string \<Rightarrow> dict list" where
  "collection db name = (case map_of db name of None \<Rightarrow> [] | Some ds \<Rightarrow> ds)"

text \<open>Decimal digits of a number: the identities the model's store generates.\<close>

fun digits :: "nat \<Rightarrow> string" where
  "digits n =
     (if n < 10 then [char_of (48 + n)]
      else digits (n div 10) @ [char_of (48 + n mod 10)])"

definition create_document :: "string \<Rightarrow> dict \<Rightarrow> database \<Rightarrow> string \<times> database" where
  "create_document name data db =
     (let docs = collection db name;
          oid = digits (length docs)
      in (oid, AList.update name (docs @ [AList.update ''_id'' (JStr oid) data]) db))"

text \<open>One operator of an operator document, against the value of the field.\<close>

fun matches_operator ::
  "(string \<Rightarrow> string \<Rightarrow> string \<Rightarrow> bool) \<Rightarrow> dict \<Rightarrow> string \<times> json \<Rightarrow> json option \<Rightarrow> bool" where
  "matches_operator rx ops (name, JStr pat) (Some (JStr s)) =
     (if name = ''$regex''
      then rx pat (case map_of ops ''$options'' of Some (JStr os) \<Rightarrow> os | _ \<Rightarrow> []) s
      else name = ''$options'')"
| "matches_operator rx ops (name, JNum b) (Some (JNum x)) =
     (if name = ''$gte'' then float_le b x
      else if name = ''$lte'' then float_le x b
      else False)"
| "matches_operator rx ops (name, arg) v = (name = ''$options'')"

text \<open>
  A condition on a field: an operator document (every operator must hold), or a value
  the field must equal.
\<close>

fun matches_condition ::
  "(string \<Rightarrow> string \<Rightarrow> string \<Rightarrow> bool) \<Rightarrow> json \<Rightarrow> json option \<Rightarrow> bool" where
  "matches_condition rx (JObj ops) v = list_all (\<lambda>op. matches_operator rx ops op v) ops"
| "matches_condition rx c v = (v = Some c)"

definition matches_fields ::
  "(string \<Rightarrow> string \<Rightarrow> string \<Rightarrow> bool) \<Rightarrow> dict \<Rightarrow> dict \<Rightarrow> bool" where
  "matches_fields rx conds doc =
     list_all (\<lambda>(k, c). matches_condition rx c (map_of doc k)) conds"

text \<open>A top-level entry of the filter: \<^verbatim>\<open>$or\<close> over sub-filters, or a field condition.\<close>

fun matches_entry ::
  "(string \<Rightarrow> string \<Rightarrow> string \<Rightarrow> bool) \<Rightarrow> dict \<Rightarrow> string \<times> json \<Rightarrow> bool" where
  "matches_entry rx doc (k, c) =
     (if k = ''$or''
      then (case c of
              JArr subs \<Rightarrow>
                list_ex (\<lambda>sub. case sub of JObj conds \<Rightarrow> matches_fields rx conds doc
                                | _ \<Rightarrow> False) subs
            | _ \<Rightarrow> False)
      else matches_condition rx c (map_of doc k))"

definition matches :: "(string \<Rightarrow> string \<Rightarrow> string \<Rightarrow> bool) \<Rightarrow> dict \<Rightarrow> dict \<Rightarrow> bool" where
  "matches rx flt doc = list_all (matches_entry rx doc) flt"

definition get_documents ::
  "(string \<Rightarrow> string \<Rightarrow> string \<Rightarrow> bool) \<Rightarrow> string \<Rightarrow> dict \<Rightarrow> int \<Rightarrow> database \<Rightarrow> dict list" where
  "get_documents rx name flt limit db =
     take (nat limit) (filter (matches rx flt) (collection db name))"

subsection \<open>Text matching\<close>

text \<open>
  The spec's reading of \<^verbatim>\<open>q\<close>, in its own words: \<open>q\<close> occurs in \<open>s\<close> as a substring,
  letters compared without regard to case (ASCII letters).
\<close>

definition lower_ascii :: "char \<Rightarrow> char" where
  "lower_ascii c =
     (case map_of (zip ''ABCDEFGHIJKLMNOPQRSTUVWXYZ'' ''abcdefghijklmnopqrstuvwxyz'') c of
        Some l \<Rightarrow> l
      | None \<Rightarrow> c)"

fun starts_with :: "string \<Rightarrow> string \<Rightarrow> bool" where
  "starts_with [] s = True"
| "starts_with (p # ps) [] = False"
| "starts_with (p # ps) (c # cs) = (p = c \<and> starts_with ps cs)"

fun contains :: "string \<Rightarrow> string \<Rightarrow> bool" where
  "contains pat [] = (pat = [])"
| "contains pat (c # cs) = (starts_with pat (c # cs) \<or> contains pat cs)"

definition ci_substring :: "string \<Rightarrow> string \<Rightarrow> bool" where
  "ci_substring q s = contains (map lower_ascii q) (map lower_ascii s)"

text \<open>
  A regular-expression engine for the patterns made of literal characters and the
  metacharacter \<^verbatim>\<open>.\<close> (any character but a newline), matched without regard to case.
  It is an instance of the parameter \<open>rx\<close> on which the store is run on concrete queries.
\<close>

fun match_here :: "string \<Rightarrow> string \<Rightarrow> bool" where
  "match_here [] s = True"
| "match_here (p # ps) [] = False"
| "match_here (p # ps) (c # cs) =
     ((if p = CHR ''.'' then c \<noteq> CHR 0x0A else lower_ascii p = lower_ascii c)
      \<and> match_here ps cs)"

fun match_anywhere :: "string \<Rightarrow> string \<Rightarrow> bool" where
  "match_anywhere pat [] = (pat = [])"
| "match_anywhere pat (c # cs) = (match_here pat (c # cs) \<or> match_anywhere pat cs)"

definition dot_engine :: "string \<Rightarrow> string \<Rightarrow> string \<Rightarrow> bool" where
  "dot_engine pat opts s = match_anywhere pat s"

subsection \<open>Example stores\<close>

text \<open>A store of three listings, used to run the handlers on concrete requests.\<close>

definition example_listing :: "string \<Rightarrow> string \<Rightarrow> string \<Rightarrow> rat \<Rightarrow> rat \<Rightarrow> rat \<Rightarrow> string \<Rightarrow> dict" where
  "example_listing t r cur s eur bgn oid =
     [(''title'', JStr t), (''region'', JStr r), (''address'', JNull),
      (''description'', JNull), (''size_sqm'', JNum (Finite s)), (''currency'', JStr cur),
      (''price_value'', JNum (Finite eur)), (''images'', JNull),
      (''price_eur'', JNum (Finite eur)), (''price_bgn'', JNum (Finite bgn)),
      (''_id'', JStr oid)]"

definition example_db :: database where
  "example_db =
     [(''property'',
       [example_listing ''Flat'' ''Plovdiv'' ''EUR'' 65 50000 (195583 / 2) ''0'',
        example_listing ''House'' ''Varna'' ''EUR'' 120 100000 195583 ''1'',
        example_listing ''Studio'' ''Plovdiv'' ''EUR'' 30 150000 (586749 / 2) ''2''])]"

definition flat_db :: database where
  "flat_db =
     [(''property'', [example_listing ''Flat'' ''Plovdiv'' ''EUR'' 65 50000 (195583 / 2) ''0''])]"


definition empty_title_payload :: dict where
  "empty_title_payload =
     [(''title'', JStr []), (''region'', JStr ''Plovdiv''), (''size_sqm'', JNum (Finite 65)),
      (''price_value'', JNum (Finite 50000))]"




section \<open>Properties of the search parameters\<close>

lemma float_lt_zero_not_ge: "float_lt x (Finite 0) \<Longrightarrow> \<not> float_ge x (Finite 0)"
  by (cases x) (auto simp: float_ge_def)

lemma float_le_zero_not_gt: "float_le x (Finite 0) \<Longrightarrow> \<not> float_gt x (Finite 0)"
  by (cases x) (auto simp: float_gt_def)

lemma check_ge0_negative:
  "float_lt x (Finite 0) \<Longrightarrow> check_ge0 name (Some x) = [(name, GreaterThanEqual)]"
  by (simp add: check_ge0_def float_lt_zero_not_ge)

lemma search_invalid:
  "validate_query rgn min_price max_price price_currency min_sqm max_sqm limit \<noteq> [] \<Longrightarrow>
   search_properties gd q rgn min_price max_price price_currency min_sqm max_sqm limit db =
     Inl (RequestValidationError
            (validate_query rgn min_price max_price price_currency min_sqm max_sqm limit))"
  by (auto simp: search_properties_def Let_def split: list.splits)

lemma search_valid:
  "validate_query rgn min_price max_price price_currency min_sqm max_sqm limit = [] \<Longrightarrow>
   search_properties gd q rgn min_price max_price price_currency min_sqm max_sqm limit db =
     Inr \<lparr>results =
            map shape
              (gd ''property''
                 (build_filter q rgn min_price max_price
                    (case price_currency of None \<Rightarrow> ''EUR'' | Some c \<Rightarrow> c) min_sqm max_sqm)
                 (case limit of None \<Rightarrow> 50 | Some n \<Rightarrow> n) db),
          total =
            length
              (gd ''property''
                 (build_filter q rgn min_price max_price
                    (case price_currency of None \<Rightarrow> ''EUR'' | Some c \<Rightarrow> c) min_sqm max_sqm)
                 (case limit of None \<Rightarrow> 50 | Some n \<Rightarrow> n) db)\<rparr>"
  by (simp add: search_properties_def Let_def)

text \<open>
  Claim C9.  A search whose \<^verbatim>\<open>q\<close> is the empty string builds the same filter as a
  search without \<^verbatim>\<open>q\<close>, and so gives the same answer, whatever the store: an empty
  \<^verbatim>\<open>q\<close> contributes no predicate.
\<close>

theorem empty_q_same_as_absent:
  "build_filter (Some []) rgn min_price max_price pc min_sqm max_sqm =
     build_filter None rgn min_price max_price pc min_sqm max_sqm
   \<and> search_properties gd (Some []) rgn min_price max_price price_currency min_sqm max_sqm
       limit db =
     search_properties gd None rgn min_price max_price price_currency min_sqm max_sqm
       limit db"
  by (simp add: build_filter_def search_properties_def cong: list.case_cong)

text \<open>
  Claim C10.  A search in which \<^verbatim>\<open>min_price\<close>, \<^verbatim>\<open>max_price\<close>, \<^verbatim>\<open>min_sqm\<close> or
  \<^verbatim>\<open>max_sqm\<close> is supplied with a value strictly below zero is rejected with a validation
  error that names the parameter and its \<^verbatim>\<open>ge=0\<close> constraint.
\<close>

theorem negative_bound_rejected:
  assumes "float_lt x (Finite 0)"
    and "(name = ''min_price'' \<and> min_price = Some x)
       \<or> (name = ''max_price'' \<and> max_price = Some x)
       \<or> (name = ''min_sqm'' \<and> min_sqm = Some x)
       \<or> (name = ''max_sqm'' \<and> max_sqm = Some x)"
  shows "\<exists>errs.
           search_properties gd q rgn min_price max_price price_currency min_sqm max_sqm
             limit db = Inl (RequestValidationError errs)
           \<and> (name, GreaterThanEqual) \<in> set errs"
proof -
  let ?v = "validate_query rgn min_price max_price price_currency min_sqm max_sqm limit"
  from assms have "(name, GreaterThanEqual) \<in> set ?v"
    by (auto simp: validate_query_def check_ge0_negative)
  moreover from this have "?v \<noteq> []" by auto
  ultimately show ?thesis
    using search_invalid [of rgn min_price max_price price_currency min_sqm max_sqm limit gd q db]
    by simp
qed

theorem negative_bound_rejected_witness:
  "float_lt (Finite (- 1)) (Finite 0)
   \<and> (\<exists>errs.
         search_properties (\<lambda>name flt limit db. []) None None None None None
           (Some (Finite (- 1))) None (Some 10) () = Inl (RequestValidationError errs)
         \<and> (''min_sqm'', GreaterThanEqual) \<in> set errs)"
  using negative_bound_rejected
    [of "Finite (- 1)" "''min_sqm''" None None "Some (Finite (- 1))" None
        "\<lambda>name flt limit db. []" None None None "Some 10" "()"]
  by simp

lemma search_Inr_valid:
  "search_properties gd q rgn min_price max_price price_currency min_sqm max_sqm limit db = Inr r
   \<Longrightarrow> validate_query rgn min_price max_price price_currency min_sqm max_sqm limit = []"
  by (auto simp: search_properties_def split: list.splits)

lemma validate_query_limit:
  "validate_query rgn min_price max_price price_currency min_sqm max_sqm limit = [] \<Longrightarrow>
   check_limit limit = []"
  by (simp add: validate_query_def)

lemma check_limit_range:
  "check_limit limit = [] \<Longrightarrow>
   1 \<le> (case limit of None \<Rightarrow> 50 | Some n \<Rightarrow> n)
   \<and> (case limit of None \<Rightarrow> 50 | Some n \<Rightarrow> n) \<le> 200"
  by (auto simp: check_limit_def split: option.splits if_splits)

lemma check_limit_outside:
  "n < 1 \<or> 200 < n \<Longrightarrow> \<exists>e. check_limit (Some n) = [(''limit'', e)]"
  by (auto simp: check_limit_def)

lemma length_get_documents: "length (get_documents rx name flt limit db) \<le> nat limit"
  by (simp add: get_documents_def)

text \<open>
  Claim C5.  \<^verbatim>\<open>limit\<close> defaults to 50 when absent; a supplied value below 1 or above 200
  is rejected with a validation error naming \<^verbatim>\<open>limit\<close> (it is not clamped); and over
  the modelled store an accepted search has its limit in \<open>[1, 200]\<close> and returns at most
  that many results.
\<close>

theorem limit_default_range_and_cap:
  "search_properties gd q rgn min_price max_price price_currency min_sqm max_sqm None db =
     search_properties gd q rgn min_price max_price price_currency min_sqm max_sqm (Some 50) db
   \<and> (n < 1 \<or> 200 < n \<longrightarrow>
        (\<exists>errs. search_properties gd q rgn min_price max_price price_currency min_sqm max_sqm
                  (Some n) db = Inl (RequestValidationError errs)
               \<and> ''limit'' \<in> fst ` set errs))
   \<and> (search_properties (get_documents rx) q rgn min_price max_price price_currency min_sqm
          max_sqm limit db = Inr r \<longrightarrow>
        1 \<le> (case limit of None \<Rightarrow> 50 | Some n \<Rightarrow> n)
      \<and> (case limit of None \<Rightarrow> 50 | Some n \<Rightarrow> n) \<le> 200
      \<and> length (results r) \<le> nat (case limit of None \<Rightarrow> 50 | Some n \<Rightarrow> n)
      \<and> total r = length (results r))"
proof (intro conjI impI)
  show "search_properties gd q rgn min_price max_price price_currency min_sqm max_sqm None db =
     search_properties gd q rgn min_price max_price price_currency min_sqm max_sqm (Some 50) db"
    by (simp add: search_properties_def validate_query_def check_limit_def
          cong: list.case_cong)
next
  assume n: "n < 1 \<or> 200 < n"
  let ?v = "validate_query rgn min_price max_price price_currency min_sqm max_sqm (Some n)"
  from check_limit_outside [OF n] obtain e where e: "check_limit (Some n) = [(''limit'', e)]" ..
  then have "(''limit'', e) \<in> set ?v" by (simp add: validate_query_def)
  then have "''limit'' \<in> fst ` set ?v" and "?v \<noteq> []" by force+
  then show "\<exists>errs. search_properties gd q rgn min_price max_price price_currency min_sqm max_sqm
                  (Some n) db = Inl (RequestValidationError errs)
               \<and> ''limit'' \<in> fst ` set errs"
    using search_invalid [of rgn min_price max_price price_currency min_sqm max_sqm "Some n" gd q db]
    by simp
next
  assume a: "search_properties (get_documents rx) q rgn min_price max_price price_currency min_sqm
          max_sqm limit db = Inr r"
  have v: "validate_query rgn min_price max_price price_currency min_sqm max_sqm limit = []"
    using a by (rule search_Inr_valid)
  note rng = check_limit_range [OF validate_query_limit [OF v]]
  from rng show "1 \<le> (case limit of None \<Rightarrow> 50 | Some n \<Rightarrow> n)" ..
  from rng show "(case limit of None \<Rightarrow> 50 | Some n \<Rightarrow> n) \<le> 200" ..
  from a show "length (results r) \<le> nat (case limit of None \<Rightarrow> 50 | Some n \<Rightarrow> n)"
    unfolding search_valid [OF v] using length_get_documents by auto
  from a show "total r = length (results r)"
    unfolding search_valid [OF v] by auto
qed

lemma two_of_three:
  "search_properties (get_documents dot_engine) None None None None None None None (Some 2)
     example_db
   = Inr \<lparr>results = [shape (example_listing ''Flat'' ''Plovdiv'' ''EUR'' 65 50000 (195583 / 2) ''0''),
                     shape (example_listing ''House'' ''Varna'' ''EUR'' 120 100000 195583 ''1'')],
          total = 2\<rparr>"
  by code_simp

theorem limit_default_range_and_cap_witness:
  "(\<exists>errs. search_properties (get_documents dot_engine) None None None None None None None
              (Some 0) example_db = Inl (RequestValidationError errs)
          \<and> ''limit'' \<in> fst ` set errs)
   \<and> (\<exists>errs. search_properties (get_documents dot_engine) None None None None None None None
              (Some 201) example_db = Inl (RequestValidationError errs)
          \<and> ''limit'' \<in> fst ` set errs)
   \<and> (\<exists>r. search_properties (get_documents dot_engine) None None None None None None None
              (Some 2) example_db = Inr r
          \<and> length (results r) \<le> 2 \<and> total r = length (results r))"
proof -
  note a = limit_default_range_and_cap
    [of "get_documents dot_engine" None None None None None None None example_db 0
        dot_engine "Some 2"
        "\<lparr>results = [shape (example_listing ''Flat'' ''Plovdiv'' ''EUR'' 65 50000 (195583 / 2) ''0''),
        shape (example_listing ''House'' ''Varna'' ''EUR'' 120 100000 195583 ''1'')], total = 2\<rparr>"]
  note b = limit_default_range_and_cap
    [of "get_documents dot_engine" None None None None None None None example_db 201
        dot_engine "Some 2"
        "\<lparr>results = [shape (example_listing ''Flat'' ''Plovdiv'' ''EUR'' 65 50000 (195583 / 2) ''0''),
        shape (example_listing ''House'' ''Varna'' ''EUR'' 120 100000 195583 ''1'')], total = 2\<rparr>"]
  show ?thesis using a b two_of_three by simp
qed

section \<open>Properties of the search response\<close>

lemma map_of_shape_id: "map_of (shape doc) ''_id'' = None"
  by (induction doc) (auto simp: shape_def)

lemma map_of_shape_other: "k \<noteq> ''_id'' \<Longrightarrow> map_of (shape doc) k = map_of doc k"
  by (induction doc) (auto simp: shape_def)

lemma keys_shape: "map fst (shape doc) = filter (\<lambda>k. k \<noteq> ''_id'') (map fst doc)"
  by (induction doc) (auto simp: shape_def)

text \<open>
  Claim C6.  Whatever the store returns, the response holds one record per returned
  document, in the same order; each record is the document without its \<^verbatim>\<open>_id\<close> and
  with every other key and value unchanged; and \<^verbatim>\<open>total\<close> is the number of records
  returned (the count after the limit was applied by the store).
\<close>

theorem search_response_shape:
  assumes "search_properties gd q rgn min_price max_price price_currency min_sqm max_sqm limit db
             = Inr r"
    and "docs = gd ''property''
                  (build_filter q rgn min_price max_price
                     (case price_currency of None \<Rightarrow> ''EUR'' | Some c \<Rightarrow> c) min_sqm max_sqm)
                  (case limit of None \<Rightarrow> 50 | Some n \<Rightarrow> n) db"
  shows "total r = length docs \<and> length (results r) = length docs
       \<and> (\<forall>i<length docs.
             map_of (results r ! i) ''_id'' = None
           \<and> (\<forall>k. k \<noteq> ''_id'' \<longrightarrow> map_of (results r ! i) k = map_of (docs ! i) k)
           \<and> map fst (results r ! i) = filter (\<lambda>k. k \<noteq> ''_id'') (map fst (docs ! i)))"
proof -
  have v: "validate_query rgn min_price max_price price_currency min_sqm max_sqm limit = []"
    using assms(1) by (rule search_Inr_valid)
  have r: "r = \<lparr>results = map shape docs, total = length docs\<rparr>"
    using assms(1) unfolding search_valid [OF v] assms(2) by simp
  show ?thesis
    by (simp add: r map_of_shape_id map_of_shape_other keys_shape)
qed

lemma three_match:
  "length (filter (matches dot_engine (build_filter None None None None ''EUR'' None None))
       (collection example_db ''property'')) = 3"
  by code_simp

theorem search_response_shape_witness:
  "search_properties (get_documents dot_engine) None None None None None None None (Some 2)
     example_db
   = Inr \<lparr>results = [shape (example_listing ''Flat'' ''Plovdiv'' ''EUR'' 65 50000 (195583 / 2) ''0''),
                     shape (example_listing ''House'' ''Varna'' ''EUR'' 120 100000 195583 ''1'')],
          total = 2\<rparr>
   \<and> length (filter (matches dot_engine (build_filter None None None None ''EUR'' None None))
       (collection example_db ''property'')) = 3
   \<and> length (get_documents dot_engine ''property''
        (build_filter None None None None ''EUR'' None None) 2 example_db) = 2
   \<and> map_of (shape (example_listing ''Flat'' ''Plovdiv'' ''EUR'' 65 50000 (195583 / 2) ''0'')) ''_id'' = None
   \<and> map_of (shape (example_listing ''Flat'' ''Plovdiv'' ''EUR'' 65 50000 (195583 / 2) ''0'')) ''title''
       = Some (JStr ''Flat'')"
  using two_of_three three_match
    search_response_shape [OF two_of_three refl]
  by (simp add: shape_def example_listing_def)

section \<open>Properties of the price filter\<close>

lemma range_dict_gte: "(''$gte'', JNum lo) \<in> set (range_dict (Some lo) hi)"
  by (cases hi) (simp_all add: range_dict_def)

lemma range_dict_lte: "(''$lte'', JNum hi) \<in> set (range_dict lo (Some hi))"
  by (cases lo) (simp_all add: range_dict_def)

lemma range_dict_nonempty: "lo \<noteq> None \<or> hi \<noteq> None \<Longrightarrow> range_dict lo hi \<noteq> []"
  by (cases lo; cases hi) (simp_all add: range_dict_def)

lemma build_filter_price:
  assumes "range_dict min_price max_price \<noteq> []"
  shows "map_of (build_filter q rgn min_price max_price pc min_sqm max_sqm)
           (if pc = ''EUR'' then ''price_eur'' else ''price_bgn'')
         = Some (JObj (range_dict min_price max_price))"
  using assms by (simp add: build_filter_def Let_def update_conv split: option.splits)

lemma matches_field:
  assumes "matches rx flt doc" and "map_of flt k = Some c" and "k \<noteq> ''$or''"
  shows "matches_condition rx c (map_of doc k)"
proof -
  from assms(2) have "(k, c) \<in> set flt" by (rule map_of_SomeD)
  with assms(1) have "matches_entry rx doc (k, c)"
    unfolding matches_def list_all_iff by blast
  with assms(3) show ?thesis by simp
qed

lemma condition_gte:
  assumes "matches_condition rx (JObj ops) v" and "(''$gte'', JNum lo) \<in> set ops"
  shows "\<exists>x. v = Some (JNum x) \<and> float_le lo x"
proof -
  from assms have m: "matches_operator rx ops (''$gte'', JNum lo) v"
    by (simp add: list_all_iff)
  show ?thesis
  proof (cases v)
    case None
    with m show ?thesis by simp
  next
    case (Some j)
    with m show ?thesis by (cases j) simp_all
  qed
qed

lemma condition_lte:
  assumes "matches_condition rx (JObj ops) v" and "(''$lte'', JNum hi) \<in> set ops"
  shows "\<exists>x. v = Some (JNum x) \<and> float_le x hi"
proof -
  from assms have m: "matches_operator rx ops (''$lte'', JNum hi) v"
    by (simp add: list_all_iff)
  show ?thesis
  proof (cases v)
    case None
    with m show ?thesis by simp
  next
    case (Some j)
    with m show ?thesis by (cases j) simp_all
  qed
qed

lemma get_documents_matches:
  "doc \<in> set (get_documents rx name flt limit db) \<Longrightarrow> matches rx flt doc"
  by (auto simp: get_documents_def dest: in_set_takeD)

lemma validate_query_currency:
  "validate_query rgn min_price max_price price_currency min_sqm max_sqm limit = [] \<Longrightarrow>
   price_currency = None \<or> price_currency = Some ''EUR'' \<or> price_currency = Some ''BGN''"
  by (auto simp: validate_query_def check_literal_def split: option.splits if_splits)

text \<open>
  Claim C4.  Over the modelled store, every record a search returns satisfies the price
  bounds the request supplies: \<^verbatim>\<open>min_price\<close> and \<^verbatim>\<open>max_price\<close> are inclusive bounds on
  \<^verbatim>\<open>price_eur\<close> when \<^verbatim>\<open>price_currency\<close> is absent (its default is EUR) or EUR, and on
  \<^verbatim>\<open>price_bgn\<close> otherwise.
\<close>

theorem price_bounds_inclusive:
  assumes "search_properties (get_documents rx) q rgn min_price max_price price_currency min_sqm
             max_sqm limit db = Inr r"
    and "d \<in> set (results r)"
    and "price_field =
           (if price_currency = None \<or> price_currency = Some ''EUR'' then ''price_eur''
            else ''price_bgn'')"
  shows "(\<forall>lo. min_price = Some lo \<longrightarrow>
            (\<exists>x. map_of d price_field = Some (JNum x) \<and> float_le lo x))
       \<and> (\<forall>hi. max_price = Some hi \<longrightarrow>
            (\<exists>x. map_of d price_field = Some (JNum x) \<and> float_le x hi))"
proof -
  let ?pc = "case price_currency of None \<Rightarrow> ''EUR'' | Some c \<Rightarrow> c"
  let ?flt = "build_filter q rgn min_price max_price ?pc min_sqm max_sqm"
  let ?lim = "case limit of None \<Rightarrow> 50 | Some n \<Rightarrow> n"
  have v: "validate_query rgn min_price max_price price_currency min_sqm max_sqm limit = []"
    using assms(1) by (rule search_Inr_valid)
  have pf: "price_field = (if ?pc = ''EUR'' then ''price_eur'' else ''price_bgn'')"
    using validate_query_currency [OF v] assms(3) by auto
  have pf_id: "price_field \<noteq> ''_id''" and pf_or: "price_field \<noteq> ''$or''"
    using assms(3) by auto
  from assms(1) have "results r = map shape (get_documents rx ''property'' ?flt ?lim db)"
    unfolding search_valid [OF v] by auto
  with assms(2) obtain doc where doc: "doc \<in> set (get_documents rx ''property'' ?flt ?lim db)"
    and d: "d = shape doc" by auto
  from doc have m: "matches rx ?flt doc" by (rule get_documents_matches)
  have val: "map_of d price_field = map_of doc price_field"
    unfolding d using pf_id by (rule map_of_shape_other)
  have cond: "matches_condition rx (JObj (range_dict min_price max_price)) (map_of doc price_field)"
    if "min_price \<noteq> None \<or> max_price \<noteq> None"
  proof -
    have "map_of ?flt price_field = Some (JObj (range_dict min_price max_price))"
      unfolding pf using range_dict_nonempty [OF that] by (rule build_filter_price)
    with m show ?thesis using pf_or by (rule matches_field)
  qed
  show ?thesis
  proof (intro conjI allI impI)
    fix lo assume lo: "min_price = Some lo"
    then have "matches_condition rx (JObj (range_dict (Some lo) max_price)) (map_of doc price_field)"
      using cond by simp
    then show "\<exists>x. map_of d price_field = Some (JNum x) \<and> float_le lo x"
      unfolding val using range_dict_gte by (rule condition_gte)
  next
    fix hi assume hi: "max_price = Some hi"
    then have "matches_condition rx (JObj (range_dict min_price (Some hi))) (map_of doc price_field)"
      using cond by simp
    then show "\<exists>x. map_of d price_field = Some (JNum x) \<and> float_le x hi"
      unfolding val using range_dict_lte by (rule condition_lte)
  qed
qed

lemma bgn_search:
  "search_properties (get_documents dot_engine) None None (Some (Finite 100000))
     (Some (Finite 200000)) (Some ''BGN'') None None None example_db
   = Inr \<lparr>results = [shape (example_listing ''House'' ''Varna'' ''EUR'' 120 100000 195583 ''1'')],
          total = 1\<rparr>"
  by code_simp

theorem price_bounds_inclusive_witness:
  "search_properties (get_documents dot_engine) None None (Some (Finite 100000))
     (Some (Finite 200000)) (Some ''BGN'') None None None example_db
   = Inr \<lparr>results = [shape (example_listing ''House'' ''Varna'' ''EUR'' 120 100000 195583 ''1'')],
          total = 1\<rparr>
   \<and> (\<exists>x. map_of (shape (example_listing ''House'' ''Varna'' ''EUR'' 120 100000 195583 ''1''))
             ''price_bgn'' = Some (JNum x)
          \<and> float_le (Finite 100000) x)
   \<and> (\<exists>x. map_of (shape (example_listing ''House'' ''Varna'' ''EUR'' 120 100000 195583 ''1''))
             ''price_bgn'' = Some (JNum x)
          \<and> float_le x (Finite 200000))"
  using bgn_search
    price_bounds_inclusive [OF bgn_search,
      of "shape (example_listing ''House'' ''Varna'' ''EUR'' 120 100000 195583 ''1'')"
         "''price_bgn''"]
  by simp

section \<open>The text filter\<close>

text \<open>
  Claim C3.  The filter hands \<^verbatim>\<open>q\<close> to the store as a regular expression, not as
  literal text.  With any engine in which the pattern \<^verbatim>\<open>.\<close> matches the text
  \<^verbatim>\<open>Flat\<close>, a search for \<^verbatim>\<open>q = "."\<close> returns a listing whose title is \<^verbatim>\<open>Flat\<close> and
  whose description and address are null, although \<^verbatim>\<open>.\<close> occurs in none of them.
\<close>

theorem regex_dot_matches_other_text:
  assumes "rx ''.'' ''i'' ''Flat''"
  shows "search_properties (get_documents rx) (Some ''.'') None None None None None None None
           flat_db
         = Inr \<lparr>results = [shape (example_listing ''Flat'' ''Plovdiv'' ''EUR'' 65 50000 (195583 / 2) ''0'')],
                total = 1\<rparr>
       \<and> \<not> ci_substring ''.'' ''Flat''
       \<and> map_of (example_listing ''Flat'' ''Plovdiv'' ''EUR'' 65 50000 (195583 / 2) ''0'') ''description'' = Some JNull
       \<and> map_of (example_listing ''Flat'' ''Plovdiv'' ''EUR'' 65 50000 (195583 / 2) ''0'') ''address'' = Some JNull"
proof -
  have "\<not> ci_substring ''.'' ''Flat''"
    by (simp add: ci_substring_def lower_ascii_def)
  moreover have "matches rx (build_filter (Some ''.'') None None None ''EUR'' None None)
           (example_listing ''Flat'' ''Plovdiv'' ''EUR'' 65 50000 (195583 / 2) ''0'')"
    using assms
    by (simp add: matches_def build_filter_def range_dict_def regex_clause_def matches_fields_def
        example_listing_def)
  ultimately show ?thesis
    by (simp add: search_properties_def validate_query_def check_literal_def check_ge0_def
        check_limit_def get_documents_def collection_def flat_db_def)
     (simp add: example_listing_def)
qed

theorem regex_dot_matches_other_text_witness:
  "dot_engine ''.'' ''i'' ''Flat''
   \<and> search_properties (get_documents dot_engine) (Some ''.'') None None None None None None None
           flat_db
         = Inr \<lparr>results = [shape (example_listing ''Flat'' ''Plovdiv'' ''EUR'' 65 50000 (195583 / 2) ''0'')],
                total = 1\<rparr>
   \<and> \<not> ci_substring ''.'' ''Flat''"
proof -
  have h: "dot_engine ''.'' ''i'' ''Flat''"
    by (simp add: dot_engine_def)
  from regex_dot_matches_other_text [of dot_engine] h show ?thesis by simp
qed

section \<open>Properties of validation\<close>

lemma errors_of_Inl: "errors_of (Inl es) = es"
  by (simp add: errors_of_def)

lemma errors_of_Inr: "errors_of (Inr x) = []"
  by (simp add: errors_of_def)

lemma field_errors_Inl: "field_errors name (Inl es) = map (Pair name) es"
  by (simp add: field_errors_def errors_of_def)


lemma field_errors_name:
  "(n, d) \<in> set (field_errors name r) \<Longrightarrow> n = name \<and> (\<exists>es. r = Inl es \<and> d \<in> set es)"
  by (cases r) (auto simp: field_errors_def errors_of_def)

text \<open>The eight field results of a payload.\<close>

lemma validate_Property_cases:
  fixes parse payload
  defines "vt \<equiv> required validate_str payload ''title''"
    and "vr \<equiv> required (validate_literal BULGARIAN_REGIONS) payload ''region''"
    and "va \<equiv> with_default None (validate_optional validate_str) payload ''address''"
    and "vd \<equiv> with_default None (validate_optional validate_str) payload ''description''"
    and "vs \<equiv> required (constrain_gt (Finite 0) (validate_float parse)) payload ''size_sqm''"
    and "vc \<equiv> with_default ''EUR'' (validate_literal [''EUR'', ''BGN'']) payload ''currency''"
    and "vp \<equiv> required (constrain_gt (Finite 0) (validate_float parse)) payload ''price_value''"
    and "vi \<equiv> with_default None (validate_optional validate_list_str) payload ''images''"
  shows "validate_Property parse payload =
           (if isl vt \<or> isl vr \<or> isl va \<or> isl vd \<or> isl vs \<or> isl vc \<or> isl vp \<or> isl vi
            then Inl (field_errors ''title'' vt @ field_errors ''region'' vr @
                  field_errors ''address'' va @ field_errors ''description'' vd @
                  field_errors ''size_sqm'' vs @ field_errors ''currency'' vc @
                  field_errors ''price_value'' vp @ field_errors ''images'' vi)
            else Inr \<lparr>title = projr vt, region = projr vr, address = projr va,
                      description = projr vd, size_sqm = projr vs, currency = projr vc,
                      price_value = projr vp, images = projr vi\<rparr>)"
  unfolding validate_Property_def Let_def vt_def [symmetric] vr_def [symmetric]
    va_def [symmetric] vd_def [symmetric] vs_def [symmetric] vc_def [symmetric]
    vp_def [symmetric] vi_def [symmetric]
  by (cases vt; cases vr; cases va; cases vd; cases vs; cases vc; cases vp; cases vi) simp_all



lemma validate_str_items_strings: "validate_str_items i (map JStr us) = Inr us"
  by (induction us arbitrary: i) simp_all

lemma validate_Property_rejects:
  assumes "required validate_str payload ''title'' = Inl es \<and> f = ''title''
         \<or> required (validate_literal BULGARIAN_REGIONS) payload ''region'' = Inl es \<and> f = ''region''
         \<or> with_default None (validate_optional validate_str) payload ''address'' = Inl es
             \<and> f = ''address''
         \<or> with_default None (validate_optional validate_str) payload ''description'' = Inl es
             \<and> f = ''description''
         \<or> required (constrain_gt (Finite 0) (validate_float parse)) payload ''size_sqm'' = Inl es
             \<and> f = ''size_sqm''
         \<or> with_default ''EUR'' (validate_literal [''EUR'', ''BGN'']) payload ''currency'' = Inl es
             \<and> f = ''currency''
         \<or> required (constrain_gt (Finite 0) (validate_float parse)) payload ''price_value'' = Inl es
             \<and> f = ''price_value''
         \<or> with_default None (validate_optional validate_list_str) payload ''images'' = Inl es
             \<and> f = ''images''"
    and "es \<noteq> []"
  shows "\<exists>errs. validate_Property parse payload = Inl errs \<and> f \<in> fst ` set errs"
proof -
  from assms(2) have "f \<in> fst ` set (map (Pair f) es)"
    by (cases es) simp_all
  with assms(1) show ?thesis
    unfolding validate_Property_cases
    by (elim disjE conjE) (simp_all add: field_errors_Inl image_Un)
qed

lemma validate_Property_errors:
  assumes "validate_Property parse payload = Inl errs"
  shows "errs =
           field_errors ''title'' (required validate_str payload ''title'') @
           field_errors ''region'' (required (validate_literal BULGARIAN_REGIONS) payload ''region'') @
           field_errors ''address''
             (with_default None (validate_optional validate_str) payload ''address'') @
           field_errors ''description''
             (with_default None (validate_optional validate_str) payload ''description'') @
           field_errors ''size_sqm''
             (required (constrain_gt (Finite 0) (validate_float parse)) payload ''size_sqm'') @
           field_errors ''currency''
             (with_default ''EUR'' (validate_literal [''EUR'', ''BGN'']) payload ''currency'') @
           field_errors ''price_value''
             (required (constrain_gt (Finite 0) (validate_float parse)) payload ''price_value'') @
           field_errors ''images''
             (with_default None (validate_optional validate_list_str) payload ''images'')"
  using assms unfolding validate_Property_cases by (simp split: if_splits)









lemma rejects_title:
  "required validate_str payload ''title'' = Inl es \<Longrightarrow> es \<noteq> [] \<Longrightarrow>
   \<exists>errs. validate_Property parse payload = Inl errs \<and> ''title'' \<in> fst ` set errs"
  by (rule validate_Property_rejects [where es = es]) simp_all


























text \<open>
  Claim C8, as stated, fails: a payload whose title is the empty string and whose other
  fields are valid passes validation and is inserted into the store.
\<close>

theorem empty_title_accepted:
  "validate_Property (\<lambda>v. None) empty_title_payload
     = Inr \<lparr>title = [], region = ''Plovdiv'', address = None, description = None,
            size_sqm = Finite 65, currency = ''EUR'', price_value = Finite 50000,
            images = None\<rparr>
   \<and> create_property (\<lambda>v. None) create_document empty_title_payload []
     = (Inr [(''id'', JStr ''0'')],
        [(''property'',
          [[(''title'', JStr []), (''region'', JStr ''Plovdiv''), (''address'', JNull),
            (''description'', JNull), (''size_sqm'', JNum (Finite 65)),
            (''currency'', JStr ''EUR''), (''price_value'', JNum (Finite 50000)),
            (''images'', JNull), (''price_eur'', JNum (Finite 50000)),
            (''price_bgn'', JNum (Finite (195583 / 2))), (''_id'', JStr ''0'')]])])"
  by code_simp

text \<open>
  Claim C8, as amended.  Validation reports an error for \<^verbatim>\<open>title\<close> exactly when the
  field is missing or is not a string.  The schema sets no minimum length, so a title
  that is the empty string is accepted like any other string.
\<close>

theorem title_rejected_iff:
  "(\<exists>errs. validate_Property lax payload = Inl errs \<and> ''title'' \<in> fst ` set errs)
   \<longleftrightarrow> (\<forall>t. map_of payload ''title'' \<noteq> Some (JStr t))"
proof
  assume "\<exists>errs. validate_Property lax payload = Inl errs \<and> ''title'' \<in> fst ` set errs"
  then obtain errs d where errs: "validate_Property lax payload = Inl errs"
    and "(''title'', d) \<in> set errs" by auto
  then have "(''title'', d) \<in> set (field_errors ''title'' (required validate_str payload ''title''))"
    unfolding validate_Property_errors [OF errs]
    by (auto dest: field_errors_name)
  then have "\<exists>es. required validate_str payload ''title'' = Inl es"
    by (auto dest: field_errors_name)
  then show "\<forall>t. map_of payload ''title'' \<noteq> Some (JStr t)"
    by (auto simp: required_def)
next
  assume a: "\<forall>t. map_of payload ''title'' \<noteq> Some (JStr t)"
  have "\<exists>es. required validate_str payload ''title'' = Inl es \<and> es \<noteq> []"
  proof (cases "map_of payload ''title''")
    case None
    then show ?thesis by (simp add: required_def)
  next
    case (Some v)
    with a show ?thesis by (cases v) (simp_all add: required_def)
  qed
  then obtain es where "required validate_str payload ''title'' = Inl es" and "es \<noteq> []"
    by blast
  then show "\<exists>errs. validate_Property lax payload = Inl errs \<and> ''title'' \<in> fst ` set errs"
    by (rule rejects_title)
qed

theorem title_rejected_iff_witness:
  "map_of empty_title_payload ''title'' = Some (JStr [])
   \<and> \<not> (\<exists>errs. validate_Property (\<lambda>v. None) empty_title_payload = Inl errs
              \<and> ''title'' \<in> fst ` set errs)"
  using title_rejected_iff [of "\<lambda>v. None" empty_title_payload]
  by (simp add: empty_title_payload_def)

end
